theory Spec2Isabelle
  imports Main
begin

section \<open>Decoded JSON values and the Python operations the backend applies to them\<close>

text \<open>
  The backend works on the value that \<^verbatim>\<open>response.json()\<close> returns: nested Python lists,
  dicts, strings, numbers, booleans and \<^verbatim>\<open>None\<close>. The type of numbers is a parameter
  \<open>'n\<close>: \<open>int\<close> for Python's unbounded ints, and any linearly ordered ring that holds the
  values of the samples otherwise (comparing a Python int with a finite float compares
  their exact values). A dict is an association list in insertion order; the keys of a
  decoded JSON object are strings.
\<close>

datatype 'n json =
    JNull
  | JBool bool
  | JNum 'n
  | JStr string
  | JArr "'n json list"
  | JObj "(string \<times> 'n json) list"

text \<open>The exceptions that the modelled code can raise; a raise is the value \<open>Inl e\<close>.\<close>

datatype pyexc =
    IndexError
  | KeyError
  | ZeroDivisionError
  | TypeError
  | UnboundLocalError
  | NameError
  | ValueError
  | OSError
  | OverflowError
  | RequestException

text \<open>
  Modelled from the spec: the constant \<^verbatim>\<open>NO_DATA\<close> of \<^verbatim>\<open>slo_generator.constants\<close>, which is
  imported by the backend but is not among the sources. The spec calls it a sentinel
  "no data" value, returned in the place of a count; a returned Python value is therefore
  either an ordinary number \<open>Num n\<close> or the sentinel \<open>NO_DATA\<close>.
\<close>

datatype 'a pyret = Num 'a | NO_DATA

text \<open>\<^verbatim>\<open>len(obj)\<close>\<close>

fun len_py :: "'n json \<Rightarrow> pyexc + nat" where
  "len_py (JArr xs) = Inr (length xs)"
| "len_py (JObj kvs) = Inr (length kvs)"
| "len_py (JStr s) = Inr (length s)"
| "len_py _ = Inl TypeError"

text \<open>
  \<^verbatim>\<open>obj[i]\<close> for an int \<open>i \<ge> 0\<close>: a list or a string is indexed (IndexError out of
  range), a dict is searched for the key \<open>i\<close>, which a decoded JSON object never has
  (KeyError), and nothing else is subscriptable (TypeError).
\<close>

fun getitem_int :: "'n json \<Rightarrow> nat \<Rightarrow> pyexc + 'n json" where
  "getitem_int (JArr xs) i = (if i < length xs then Inr (xs ! i) else Inl IndexError)"
| "getitem_int (JStr s) i = (if i < length s then Inr (JStr [s ! i]) else Inl IndexError)"
| "getitem_int (JObj kvs) i = Inl KeyError"
| "getitem_int _ i = Inl TypeError"

text \<open>
  \<^verbatim>\<open>obj['key']\<close>: a dict is searched for the key (KeyError when it is missing); a list or
  a string refuses a string index, and nothing else is subscriptable (TypeError).
\<close>

fun getitem_str :: "'n json \<Rightarrow> string \<Rightarrow> pyexc + 'n json" where
  "getitem_str (JObj kvs) k = (case map_of kvs k of None \<Rightarrow> Inl KeyError | Some v \<Rightarrow> Inr v)"
| "getitem_str _ k = Inl TypeError"

text \<open>
  \<^verbatim>\<open>for item in obj\<close>: the items of a list, the keys of a dict, the characters of a
  string; nothing else is iterable (TypeError).
\<close>

fun iter_py :: "'n json \<Rightarrow> pyexc + 'n json list" where
  "iter_py (JArr xs) = Inr xs"
| "iter_py (JObj kvs) = Inr (map (\<lambda>kv. JStr (fst kv)) kvs)"
| "iter_py (JStr s) = Inr (map (\<lambda>c. JStr [c]) s)"
| "iter_py _ = Inl TypeError"

text \<open>
  \<^verbatim>\<open>value <= threshold\<close> for a numeric threshold: numbers are compared, a bool is the int
  0 or 1, and a string, a list or a dict cannot be compared with a number (TypeError).
  The code never compares \<^verbatim>\<open>None\<close>.
\<close>

fun le_py :: "('n::linordered_idom) json \<Rightarrow> 'n \<Rightarrow> pyexc + bool" where
  "le_py (JNum v) t = Inr (v \<le> t)"
| "le_py (JBool b) t = Inr (of_bool b \<le> t)"
| "le_py _ t = Inl TypeError"

text \<open>\<^verbatim>\<open>point > 0\<close>, under the same rules.\<close>

fun gt0_py :: "('n::linordered_idom) json \<Rightarrow> pyexc + bool" where
  "gt0_py (JNum v) = Inr (0 < v)"
| "gt0_py (JBool b) = Inr (0 < (of_bool b :: 'n))"
| "gt0_py _ = Inl TypeError"

text \<open>
  \<^verbatim>\<open>sum(values)\<close>: the items are added from the left to the int 0; a bool adds as 0 or 1,
  anything that is not a number cannot be added (TypeError). Python's \<^verbatim>\<open>+\<close> on the
  numbers is the parameter \<open>plus_py\<close>: it is the exact sum on ints, and the rounded sum
  when a float takes part.
\<close>

fun sum_py ::
  "('n \<Rightarrow> 'n \<Rightarrow> 'n) \<Rightarrow> ('n::linordered_idom) json list \<Rightarrow> 'n \<Rightarrow> pyexc + 'n" where
  "sum_py plus_py [] acc = Inr acc"
| "sum_py plus_py (JNum v # vs) acc = sum_py plus_py vs (plus_py acc v)"
| "sum_py plus_py (JBool b # vs) acc = sum_py plus_py vs (plus_py acc (of_bool b))"
| "sum_py plus_py (_ # vs) acc = Inl TypeError"

section \<open>\<^verbatim>\<open>GraphiteBackend.count_threshold\<close>\<close>

text \<open>
  The \<^verbatim>\<open>for point in datapoints\<close> loop of one series. The state is the pair of the lists
  \<^verbatim>\<open>below\<close> and \<^verbatim>\<open>above\<close>; \<^verbatim>\<open>point[0]\<close> may raise, and so may the comparison.
\<close>

fun count_threshold_for ::
  "('n::linordered_idom) \<Rightarrow> 'n json list \<Rightarrow> 'n json list \<times> 'n json list
    \<Rightarrow> pyexc + ('n json list \<times> 'n json list)" where
  "count_threshold_for threshold [] (below_l, above_l) = Inr (below_l, above_l)"
| "count_threshold_for threshold (point # rest) (below_l, above_l) =
     (case getitem_int point 0 of
        Inl e \<Rightarrow> Inl e
      | Inr v \<Rightarrow>
          if v \<noteq> JNull then
            (case le_py v threshold of
               Inl e \<Rightarrow> Inl e
             | Inr le \<Rightarrow>
                 if le then count_threshold_for threshold rest (below_l @ [v], above_l)
                 else count_threshold_for threshold rest (below_l, above_l @ [v]))
          else count_threshold_for threshold rest (below_l, above_l))"

text \<open>
  The \<^verbatim>\<open>while (target < x)\<close> loop over the series. The lists \<^verbatim>\<open>below\<close> and \<^verbatim>\<open>above\<close> are
  bound inside the loop body, to fresh empty lists at every iteration; before the first
  iteration the two names are unbound, which is the state \<open>None\<close>.
\<close>

function count_threshold_while ::
  "('n::linordered_idom) json \<Rightarrow> 'n \<Rightarrow> nat \<Rightarrow> nat \<Rightarrow> ('n json list \<times> 'n json list) option
    \<Rightarrow> pyexc + ('n json list \<times> 'n json list) option" where
  "count_threshold_while response threshold x target buckets =
     (if target < x then
        (case getitem_int response target of
           Inl e \<Rightarrow> Inl e
         | Inr series \<Rightarrow>
             (case getitem_str series ''datapoints'' of
                Inl e \<Rightarrow> Inl e
              | Inr datapoints \<Rightarrow>
                  (case iter_py datapoints of
                     Inl e \<Rightarrow> Inl e
                   | Inr points \<Rightarrow>
                       (case count_threshold_for threshold points ([], []) of
                          Inl e \<Rightarrow> Inl e
                        | Inr filled \<Rightarrow>
                            count_threshold_while response threshold x (target + 1)
                              (Some filled)))))
      else Inr buckets)"
  by pat_completeness auto
termination
  by (relation "measure (\<lambda>(response, threshold, x, target, buckets). x - target)") auto

declare count_threshold_while.simps [simp del]

text \<open>
  The body of the \<^verbatim>\<open>try\<close> statement: reading \<^verbatim>\<open>below\<close> or \<^verbatim>\<open>above\<close> after a loop that
  never ran raises UnboundLocalError.
\<close>

definition count_threshold_try ::
  "('n::linordered_idom) json \<Rightarrow> 'n \<Rightarrow> bool \<Rightarrow> pyexc + (int pyret \<times> int pyret)" where
  "count_threshold_try response threshold good_below_threshold =
     (case len_py response of
        Inl e \<Rightarrow> Inl e
      | Inr x \<Rightarrow>
          (case count_threshold_while response threshold x 0 None of
             Inl e \<Rightarrow> Inl e
           | Inr None \<Rightarrow> Inl UnboundLocalError
           | Inr (Some (below_l, above_l)) \<Rightarrow>
               if good_below_threshold
               then Inr (Num (int (length below_l)), Num (int (length above_l)))
               else Inr (Num (int (length above_l)), Num (int (length below_l)))))"

text \<open>
  \<^verbatim>\<open>except (IndexError, KeyError, ZeroDivisionError)\<close>: these three become the sentinel
  pair, every other exception reaches the caller.
\<close>

definition count_threshold ::
  "('n::linordered_idom) json \<Rightarrow> 'n \<Rightarrow> bool \<Rightarrow> pyexc + (int pyret \<times> int pyret)" where
  "count_threshold response threshold good_below_threshold =
     (case count_threshold_try response threshold good_below_threshold of
        Inl e \<Rightarrow>
          if e = IndexError \<or> e = KeyError \<or> e = ZeroDivisionError
          then Inr (NO_DATA, NO_DATA) else Inl e
      | Inr r \<Rightarrow> Inr r)"

section \<open>\<^verbatim>\<open>GraphiteBackend.count\<close>\<close>

text \<open>
  The list comprehension
  \<^verbatim>\<open>[point for point in point['values'] if point is not None and point > 0]\<close>:
  \<^verbatim>\<open>and\<close> does not evaluate the comparison for \<^verbatim>\<open>None\<close>; the comparison may raise.
\<close>

fun count_comprehension :: "('n::linordered_idom) json list \<Rightarrow> pyexc + 'n json list" where
  "count_comprehension [] = Inr []"
| "count_comprehension (point # rest) =
     (case (if point \<noteq> JNull then gt0_py point else Inr False) of
        Inl e \<Rightarrow> Inl e
      | Inr keep \<Rightarrow>
          (case count_comprehension rest of
             Inl e \<Rightarrow> Inl e
           | Inr kept \<Rightarrow> Inr (if keep then point # kept else kept)))"

text \<open>The \<^verbatim>\<open>for point in datapoints\<close> loop, which extends the list \<^verbatim>\<open>values\<close>.\<close>

fun count_for :: "('n::linordered_idom) json list \<Rightarrow> 'n json list \<Rightarrow> pyexc + 'n json list" where
  "count_for [] vals = Inr vals"
| "count_for (point # rest) vals =
     (case getitem_str point ''values'' of
        Inl e \<Rightarrow> Inl e
      | Inr point_vals \<Rightarrow>
          (case iter_py point_vals of
             Inl e \<Rightarrow> Inl e
           | Inr entries \<Rightarrow>
               (case count_comprehension entries of
                  Inl e \<Rightarrow> Inl e
                | Inr point_values \<Rightarrow> count_for rest (vals @ point_values))))"

text \<open>
  The body of the \<^verbatim>\<open>try\<close> statement of \<^verbatim>\<open>count\<close>; \<open>plus_py\<close> is Python's \<^verbatim>\<open>+\<close> on
  the numbers, which \<^verbatim>\<open>sum\<close> applies.
\<close>

definition count_try ::
  "('n \<Rightarrow> 'n \<Rightarrow> 'n) \<Rightarrow> ('n::linordered_idom) json \<Rightarrow> pyexc + 'n pyret" where
  "count_try plus_py response =
     (case getitem_str response ''result'' of
        Inl e \<Rightarrow> Inl e
      | Inr result \<Rightarrow>
          (case getitem_int result 0 of
             Inl e \<Rightarrow> Inl e
           | Inr series \<Rightarrow>
               (case getitem_str series ''data'' of
                  Inl e \<Rightarrow> Inl e
                | Inr datapoints \<Rightarrow>
                    (case iter_py datapoints of
                       Inl e \<Rightarrow> Inl e
                     | Inr points \<Rightarrow>
                         (case count_for points [] of
                            Inl e \<Rightarrow> Inl e
                          | Inr vals \<Rightarrow>
                              (case sum_py plus_py vals 0 of
                                 Inl e \<Rightarrow> Inl e
                               | Inr summed \<Rightarrow> Inr (Num summed)))))))"

text \<open>\<^verbatim>\<open>except (IndexError, KeyError)\<close>: these two become the sentinel.\<close>

definition count ::
  "('n \<Rightarrow> 'n \<Rightarrow> 'n) \<Rightarrow> ('n::linordered_idom) json \<Rightarrow> pyexc + 'n pyret" where
  "count plus_py response =
     (case count_try plus_py response of
        Inl e \<Rightarrow> if e = IndexError \<or> e = KeyError then Inr NO_DATA else Inl e
      | Inr r \<Rightarrow> Inr r)"

section \<open>\<^verbatim>\<open>GraphiteClient\<close>, \<^verbatim>\<open>GraphiteBackend.query\<close> and \<^verbatim>\<open>GraphiteBackend.threshold\<close>\<close>

text \<open>
  The fields of a \<^verbatim>\<open>datetime\<close> object that the format string reads. The class keeps
  them in the ranges of \<open>valid_datetime\<close> (\<^verbatim>\<open>MINYEAR\<close> is 1 and \<^verbatim>\<open>MAXYEAR\<close> is 9999).
\<close>

record datetime =
  year :: nat
  month :: nat
  day :: nat
  hour :: nat
  minute :: nat

definition valid_datetime :: "datetime \<Rightarrow> bool" where
  "valid_datetime dt =
     (1 \<le> year dt \<and> year dt \<le> 9999 \<and> 1 \<le> month dt \<and> month dt \<le> 12
      \<and> 1 \<le> day dt \<and> day dt \<le> 31 \<and> hour dt < 24 \<and> minute dt < 60)"

definition digit_char :: "nat \<Rightarrow> char" where
  "digit_char n = ''0123456789'' ! (n mod 10)"

fun decimal :: "nat \<Rightarrow> string" where
  "decimal n = (if n < 10 then [digit_char n] else decimal (n div 10) @ [digit_char n])"

declare decimal.simps [simp del]

definition zero_padded :: "nat \<Rightarrow> nat \<Rightarrow> string" where
  "zero_padded width n = replicate (width - length (decimal n)) (CHR ''0'') @ decimal n"

text \<open>
  \<^verbatim>\<open>strftime\<close>, for the directives of the format string \<^verbatim>\<open>"%H:%M_%Y%m%d"\<close>: hour, minute,
  month and day are zero-padded to two digits, and \<^verbatim>\<open>%Y\<close> is the year as a decimal
  number. Whether a year below 1000 is padded to four digits is decided by the platform's
  C library; the facts about the format take years from 1000 on, where no padding is
  needed. Any other directive is left as it is written.
\<close>

definition strftime_directive :: "datetime \<Rightarrow> char \<Rightarrow> string" where
  "strftime_directive dt c =
     (if c = CHR ''H'' then zero_padded 2 (hour dt)
      else if c = CHR ''M'' then zero_padded 2 (minute dt)
      else if c = CHR ''Y'' then decimal (year dt)
      else if c = CHR ''m'' then zero_padded 2 (month dt)
      else if c = CHR ''d'' then zero_padded 2 (day dt)
      else [CHR ''%'', c])"

fun strftime :: "datetime \<Rightarrow> string \<Rightarrow> string" where
  "strftime dt (c # d # fmt) =
     (if c = CHR ''%'' then strftime_directive dt d @ strftime dt fmt
      else c # strftime dt (d # fmt))"
| "strftime dt fmt = fmt"

text \<open>\<^verbatim>\<open>GraphiteClient.__init__\<close>: \<^verbatim>\<open>self.url = api_url.rstrip('/')\<close>.\<close>

record graphite_client =
  url :: string

definition rstrip :: "char \<Rightarrow> string \<Rightarrow> string" where
  "rstrip c s = rev (dropWhile (\<lambda>x. x = c) (rev s))"

definition GraphiteClient :: "string \<Rightarrow> graphite_client" where
  "GraphiteClient api_url = \<lparr>url = rstrip (CHR ''/'') api_url\<rparr>"

text \<open>\<^verbatim>\<open>sep.join(strings)\<close>\<close>

fun join :: "string \<Rightarrow> string list \<Rightarrow> string" where
  "join sep [] = []"
| "join sep [s] = s"
| "join sep (s # t # ss) = s @ sep @ join sep (t # ss)"

text \<open>
  The URL that \<^verbatim>\<open>GraphiteClient.request\<close> builds. The keyword arguments \<^verbatim>\<open>params\<close> are a
  dict in insertion order; a value \<^verbatim>\<open>None\<close> is left out of the query string.
\<close>

definition request_url ::
  "graphite_client \<Rightarrow> string \<Rightarrow> string \<Rightarrow> (string \<times> string option) list \<Rightarrow> string" where
  "request_url self endpoint metric params =
     (let url0 = url self @ ''/'' @ endpoint @ ''='' @ metric;
          params_str = join ''&'' [k @ ''='' @ v. (k, Some v) \<leftarrow> params]
      in url0 @ ''&'' @ params_str)"

text \<open>
  \<^verbatim>\<open>GraphiteClient.request\<close>. The HTTP session and the server behind it are the
  parameter \<open>session\<close>: \<open>session method target_url headers\<close> is what
  \<^verbatim>\<open>getattr(self.client, method)(url, headers=headers, verify=False).json()\<close> returns or
  raises. For \<^verbatim>\<open>put\<close> and \<^verbatim>\<open>post\<close> the code reads the name \<^verbatim>\<open>post_data\<close>, which is
  bound nowhere (NameError).
\<close>

definition request ::
  "(string \<Rightarrow> string \<Rightarrow> (string \<times> string) list \<Rightarrow> pyexc + 'r) \<Rightarrow> graphite_client
    \<Rightarrow> string \<Rightarrow> string \<Rightarrow> string \<Rightarrow> (string \<times> string option) list \<Rightarrow> pyexc + 'r" where
  "request session self method endpoint metric params =
     (let target_url = request_url self endpoint metric params;
          headers = [(''Accept'', ''application/json''),
                     (''Content-Type'', ''application/json''),
                     (''User-Agent'', ''slo-generator'')]
      in if method \<in> set [''put'', ''post''] then Inl NameError
         else session method target_url headers)"

text \<open>\<^verbatim>\<open>GraphiteBackend.__init__\<close>: a client is built from \<^verbatim>\<open>api_url\<close> when none is given.\<close>

record graphite_backend =
  client :: graphite_client

definition GraphiteBackend :: "graphite_client option \<Rightarrow> string \<Rightarrow> graphite_backend" where
  "GraphiteBackend given api_url =
     (case given of None \<Rightarrow> \<lparr>client = GraphiteClient api_url\<rparr> | Some c \<Rightarrow> \<lparr>client = c\<rparr>)"

text \<open>
  \<^verbatim>\<open>GraphiteBackend.query\<close>. \<^verbatim>\<open>datetime.fromtimestamp\<close> is the platform's conversion of a
  UNIX timestamp to local time, the parameter \<open>fromtimestamp\<close>; it raises for a timestamp
  outside the years that \<^verbatim>\<open>datetime\<close> holds.
\<close>

definition query ::
  "(string \<Rightarrow> string \<Rightarrow> (string \<times> string) list \<Rightarrow> pyexc + 'r) \<Rightarrow> (int \<Rightarrow> pyexc + datetime)
    \<Rightarrow> graphite_backend \<Rightarrow> int \<Rightarrow> int \<Rightarrow> string \<Rightarrow> pyexc + 'r" where
  "query session fromtimestamp self start end metric =
     (case fromtimestamp start of
        Inl e \<Rightarrow> Inl e
      | Inr start_dt \<Rightarrow>
          (case fromtimestamp end of
             Inl e \<Rightarrow> Inl e
           | Inr end_dt \<Rightarrow>
               request session (client self) ''get'' ''render?target'' metric
                 [(''from'', Some (strftime start_dt ''%H:%M_%Y%m%d'')),
                  (''until'', Some (strftime end_dt ''%H:%M_%Y%m%d'')),
                  (''format'', Some ''json'')]))"

text \<open>
  The part of the SLO configuration that \<^verbatim>\<open>threshold\<close> reads:
  \<^verbatim>\<open>slo_config['backend']['measurement']\<close> with the keys \<^verbatim>\<open>metric\<close>, \<^verbatim>\<open>threshold\<close> and
  the optional \<^verbatim>\<open>good_below_threshold\<close> (\<open>None\<close> when the key is absent).
\<close>

record 'n measurement =
  cfg_metric :: string
  cfg_threshold :: 'n
  cfg_good_below_threshold :: "bool option"

record 'n backend_config =
  measurement :: "'n measurement"

record 'n slo_config =
  backend :: "'n backend_config"

text \<open>\<^verbatim>\<open>GraphiteBackend.threshold\<close>; it has no \<^verbatim>\<open>try\<close>, what the query raises is raised.\<close>

definition threshold ::
  "(string \<Rightarrow> string \<Rightarrow> (string \<times> string) list \<Rightarrow> pyexc + ('n::linordered_idom) json)
    \<Rightarrow> (int \<Rightarrow> pyexc + datetime) \<Rightarrow> graphite_backend \<Rightarrow> int \<Rightarrow> int \<Rightarrow> 'n slo_config
    \<Rightarrow> pyexc + (int pyret \<times> int pyret)" where
  "threshold session fromtimestamp self timestamp window slo_config =
     (let conf = backend slo_config;
          meas = measurement conf;
          start = timestamp - window;
          end = timestamp;
          metric = cfg_metric meas;
          thr = cfg_threshold meas;
          gbt = (case cfg_good_below_threshold meas of None \<Rightarrow> True | Some b \<Rightarrow> b)
      in case query session fromtimestamp self start end metric of
           Inl e \<Rightarrow> Inl e
         | Inr response \<Rightarrow> count_threshold response thr gbt)"

section \<open>The notions the claims are stated in\<close>

subsection \<open>Responses of \<^verbatim>\<open>count_threshold\<close>\<close>

text \<open>
  A well-formed response is a list of series, each a dict whose \<^verbatim>\<open>datapoints\<close> is a list
  of points, each a list that starts with the value, a number or null (the timestamp
  follows; the code never reads it).
\<close>

fun wf_point :: "'n json \<Rightarrow> bool" where
  "wf_point (JArr (JNum v # ts)) = True"
| "wf_point (JArr (JNull # ts)) = True"
| "wf_point _ = False"

fun series_points :: "'n json \<Rightarrow> 'n json list option" where
  "series_points (JObj kvs) =
     (case map_of kvs ''datapoints'' of Some (JArr ps) \<Rightarrow> Some ps | _ \<Rightarrow> None)"
| "series_points _ = None"

definition wf_series :: "'n json \<Rightarrow> bool" where
  "wf_series s = (case series_points s of Some ps \<Rightarrow> list_all wf_point ps | None \<Rightarrow> False)"

fun wf_response :: "'n json \<Rightarrow> bool" where
  "wf_response (JArr ss) = list_all wf_series ss"
| "wf_response _ = False"

text \<open>The non-null values of a list of points, and how many lie on each side.\<close>

fun sample_value :: "'n json \<Rightarrow> 'n option" where
  "sample_value (JArr (JNum v # ts)) = Some v"
| "sample_value _ = None"

definition values_of :: "'n json list \<Rightarrow> 'n list" where
  "values_of points = List.map_filter sample_value points"

definition count_below :: "('n::linordered_idom) \<Rightarrow> 'n json list \<Rightarrow> nat" where
  "count_below thr points = length (filter (\<lambda>v. v \<le> thr) (values_of points))"

definition count_above :: "('n::linordered_idom) \<Rightarrow> 'n json list \<Rightarrow> nat" where
  "count_above thr points = length (filter (\<lambda>v. thr < v) (values_of points))"

text \<open>The points of all the series of a response, in order.\<close>

definition all_series_points :: "'n json list \<Rightarrow> 'n json list" where
  "all_series_points ss =
     concat (map (\<lambda>s. case series_points s of Some ps \<Rightarrow> ps | None \<Rightarrow> []) ss)"

text \<open>
  The points that the last iteration of the \<^verbatim>\<open>while\<close> loop reads, for any response at
  all, and those among them whose value is not null.
\<close>

definition last_series_points :: "'n json \<Rightarrow> 'n json list" where
  "last_series_points response =
     (case len_py response of
        Inl e \<Rightarrow> []
      | Inr x \<Rightarrow>
          (case getitem_int response (x - 1) of
             Inl e \<Rightarrow> []
           | Inr series \<Rightarrow>
               (case getitem_str series ''datapoints'' of
                  Inl e \<Rightarrow> []
                | Inr datapoints \<Rightarrow>
                    (case iter_py datapoints of Inl e \<Rightarrow> [] | Inr points \<Rightarrow> points))))"

definition nonnull_samples :: "'n json \<Rightarrow> 'n json list" where
  "nonnull_samples response =
     filter (\<lambda>point. getitem_int point 0 \<noteq> Inr JNull) (last_series_points response)"

subsection \<open>Responses of \<^verbatim>\<open>count\<close>\<close>

text \<open>
  \<^verbatim>\<open>count\<close> reads \<^verbatim>\<open>response['result'][0]['data']\<close> and the \<^verbatim>\<open>values\<close> of each point
  there: its well-formed response is a dict whose \<^verbatim>\<open>result\<close> is a list that starts with
  a series, a dict whose \<^verbatim>\<open>data\<close> is a list of points, each a dict whose \<^verbatim>\<open>values\<close> is
  a list of numbers and nulls.
\<close>

fun wf_value :: "'n json \<Rightarrow> bool" where
  "wf_value (JNum v) = True"
| "wf_value JNull = True"
| "wf_value _ = False"

fun present :: "'n json \<Rightarrow> 'n option" where
  "present (JNum v) = Some v"
| "present _ = None"

fun values_of_point :: "'n json \<Rightarrow> 'n json list option" where
  "values_of_point (JObj kvs) =
     (case map_of kvs ''values'' of Some (JArr vs) \<Rightarrow> Some vs | _ \<Rightarrow> None)"
| "values_of_point _ = None"

definition wf_count_point :: "'n json \<Rightarrow> bool" where
  "wf_count_point p =
     (case values_of_point p of Some vs \<Rightarrow> list_all wf_value vs | None \<Rightarrow> False)"

fun result_data :: "'n json \<Rightarrow> 'n json list option" where
  "result_data (JObj kvs) =
     (case map_of kvs ''result'' of
        Some (JArr (JObj series # others)) \<Rightarrow>
          (case map_of series ''data'' of Some (JArr ps) \<Rightarrow> Some ps | _ \<Rightarrow> None)
      | _ \<Rightarrow> None)"
| "result_data _ = None"

definition wf_count_response :: "'n json \<Rightarrow> bool" where
  "wf_count_response r =
     (case result_data r of Some ps \<Rightarrow> list_all wf_count_point ps | None \<Rightarrow> False)"

text \<open>The values that are present (not null) in a list of points, in order.\<close>

definition present_values :: "'n json list \<Rightarrow> 'n list" where
  "present_values ps =
     concat (map (\<lambda>p. case values_of_point p of
                          Some vs \<Rightarrow> List.map_filter present vs | None \<Rightarrow> []) ps)"

subsection \<open>Formatted times and URLs\<close>

text \<open>
  A string matches a pattern such as \<^verbatim>\<open>HH:MM_YYYYMMDD\<close> when it has a decimal digit
  wherever the pattern has one of the letters H, M, Y, D and the pattern's own character
  everywhere else, and the same length.
\<close>

definition is_digit :: "char \<Rightarrow> bool" where
  "is_digit c = (c \<in> set ''0123456789'')"

fun matches_pattern :: "string \<Rightarrow> string \<Rightarrow> bool" where
  "matches_pattern [] [] = True"
| "matches_pattern (p # ps) (c # cs) =
     ((if p \<in> set ''HMYD'' then is_digit c else c = p) \<and> matches_pattern ps cs)"
| "matches_pattern _ _ = False"

text \<open>
  The value of a digit is its place in \<^verbatim>\<open>0123456789\<close> (0 for any other character). Then
  the number that a string of decimal digits writes, and what it is for a string to show
  a date-time in the form \<^verbatim>\<open>HH:MM_YYYYMMDD\<close>: it matches the pattern, and its digits
  write the hour, the minute, the year, the month and the day of the date-time.
\<close>

definition digit_value :: "char \<Rightarrow> nat" where
  "digit_value c = length (takeWhile (\<lambda>d. d \<noteq> c) ''0123456789'') mod 10"

definition decimal_value :: "string \<Rightarrow> nat" where
  "decimal_value s = foldl (\<lambda>acc c. 10 * acc + digit_value c) 0 s"

definition shows_datetime :: "datetime \<Rightarrow> string \<Rightarrow> bool" where
  "shows_datetime dt s =
     (matches_pattern ''HH:MM_YYYYMMDD'' s
      \<and> decimal_value (take 2 s) = hour dt
      \<and> decimal_value (take 2 (drop 3 s)) = minute dt
      \<and> decimal_value (take 4 (drop 6 s)) = year dt
      \<and> decimal_value (take 2 (drop 10 s)) = month dt
      \<and> decimal_value (take 2 (drop 12 s)) = day dt)"

text \<open>\<^verbatim>\<open>sub in s\<close>, and the part of a URL that follows the first \<^verbatim>\<open>://\<close>.\<close>

fun is_prefix :: "string \<Rightarrow> string \<Rightarrow> bool" where
  "is_prefix [] s = True"
| "is_prefix (p # ps) [] = False"
| "is_prefix (p # ps) (c # cs) = (p = c \<and> is_prefix ps cs)"

fun is_substring :: "string \<Rightarrow> string \<Rightarrow> bool" where
  "is_substring sub [] = (sub = [])"
| "is_substring sub (c # cs) = (is_prefix sub (c # cs) \<or> is_substring sub cs)"

fun after_scheme :: "string \<Rightarrow> string" where
  "after_scheme (a # b # c # s) = (if [a, b, c] = ''://'' then s else after_scheme (b # c # s))"
| "after_scheme s = []"

text \<open>
  One instance of the parameter \<open>fromtimestamp\<close>, to run \<open>query\<close> on concrete timestamps:
  \<^verbatim>\<open>datetime.fromtimestamp\<close> of CPython 3 on 64-bit Linux (glibc) with the local time zone
  UTC, for an int. A timestamp that does not fit the 64-bit \<^verbatim>\<open>time_t\<close> raises
  OverflowError; one whose year does not fit the C library's \<^verbatim>\<open>int\<close> makes
  \<^verbatim>\<open>localtime\<close> fail (OSError); one whose year, or the year one day before it (which
  the method probes), is outside 1 to 9999 raises ValueError. Otherwise the days since the
  epoch give the date of the proleptic Gregorian calendar, and the seconds of the day give
  hour and minute.
\<close>

definition utc_fromtimestamp :: "int \<Rightarrow> pyexc + datetime" where
  "utc_fromtimestamp t =
     (if t < - 9223372036854775808 \<or> 9223372036854775807 < t then Inl OverflowError
      else if t < - 67768040609740800 \<or> 67768036191676799 < t then Inl OSError
      else if t < - 62135510400 \<or> 253402300799 < t then Inl ValueError
      else
        (let days = t div 86400;
             secs = t mod 86400;
             z = days + 719468;
             era = z div 146097;
             doe = z mod 146097;
             yoe = (doe - doe div 1460 + doe div 36524 - doe div 146096) div 365;
             doy = doe - (365 * yoe + yoe div 4 - yoe div 100);
             mp = (5 * doy + 2) div 153;
             d = doy - (153 * mp + 2) div 5 + 1;
             m = (if mp < 10 then mp + 3 else mp - 9);
             y = yoe + era * 400 + (if m \<le> 2 then 1 else 0)
         in Inr \<lparr>year = nat y, month = nat m, day = nat d,
                   hour = nat (secs div 3600), minute = nat (secs mod 3600 div 60)\<rparr>))"

section \<open>Facts about \<^verbatim>\<open>count_threshold\<close>\<close>

lemma count_threshold_while_done:
  "\<not> target < x \<Longrightarrow> count_threshold_while response t x target buckets = Inr buckets"
  by (simp add: count_threshold_while.simps)

lemma values_of_Nil [simp]: "values_of [] = []"
  by (simp add: values_of_def map_filter_simps)

lemma values_of_Cons:
  "values_of (p # ps) =
     (case sample_value p of None \<Rightarrow> values_of ps | Some v \<Rightarrow> v # values_of ps)"
  by (simp add: values_of_def map_filter_simps split: option.splits)

lemma values_of_append [simp]: "values_of (ps @ qs) = values_of ps @ values_of qs"
  by (simp add: values_of_def map_filter_def)

lemma wf_point_cases:
  assumes "wf_point p"
  obtains (num) v ts where "p = JArr (JNum v # ts)" | (null) ts where "p = JArr (JNull # ts)"
  using assms by (cases p rule: wf_point.cases) auto

text \<open>On well-formed points the inner loop never raises and fills the two lists.\<close>

lemma count_threshold_for_wf:
  "list_all wf_point ps \<Longrightarrow>
   count_threshold_for t ps (b, a) =
     Inr (b @ map JNum (filter (\<lambda>v. v \<le> t) (values_of ps)),
          a @ map JNum (filter (\<lambda>v. t < v) (values_of ps)))"
proof (induction ps arbitrary: b a)
  case Nil
  then show ?case by simp
next
  case (Cons p ps)
  from Cons.prems have wp: "wf_point p" and wps: "list_all wf_point ps" by simp_all
  from wp show ?case
  proof (cases rule: wf_point_cases)
    case (num v ts)
    then show ?thesis using Cons.IH [OF wps] by (simp add: values_of_Cons not_le)
  next
    case (null ts)
    then show ?thesis using Cons.IH [OF wps] by (simp add: values_of_Cons)
  qed
qed

lemma series_points_getitem:
  "series_points s = Some ps \<Longrightarrow> getitem_str s ''datapoints'' = Inr (JArr ps)"
  by (cases s) (auto split: option.splits json.splits)

text \<open>
  On a well-formed response the outer loop ends with the two lists of the last series:
  every iteration starts from empty lists again.
\<close>

lemma count_threshold_while_wf:
  "list_all wf_series ss \<Longrightarrow> target \<le> length ss \<Longrightarrow>
   count_threshold_while (JArr ss) t (length ss) target bk =
     Inr (if target < length ss
          then Some (map JNum (filter (\<lambda>v. v \<le> t) (values_of (the (series_points (last ss))))),
                     map JNum (filter (\<lambda>v. t < v) (values_of (the (series_points (last ss))))))
          else bk)"
proof (induction "length ss - target" arbitrary: target bk)
  case 0
  then show ?case by (simp add: count_threshold_while_done)
next
  case (Suc k)
  then have lt: "target < length ss" by simp
  with Suc.prems have "wf_series (ss ! target)" by (simp add: list_all_length)
  then obtain ps where sp: "series_points (ss ! target) = Some ps"
    and wps: "list_all wf_point ps"
    by (auto simp: wf_series_def split: option.splits)
  have k: "k = length ss - (target + 1)" using Suc.hyps(2) by simp
  have le: "target + 1 \<le> length ss" using lt by simp
  have step: "count_threshold_while (JArr ss) t (length ss) target bk =
    count_threshold_while (JArr ss) t (length ss) (target + 1)
      (Some (map JNum (filter (\<lambda>v. v \<le> t) (values_of ps)),
             map JNum (filter (\<lambda>v. t < v) (values_of ps))))"
    using lt by (subst count_threshold_while.simps)
      (simp add: series_points_getitem [OF sp] count_threshold_for_wf [OF wps])
  show ?case
  proof (cases "target + 1 < length ss")
    case True
    then show ?thesis using step Suc.hyps(1) [OF k Suc.prems(1) le] lt by simp
  next
    case False
    then have "target = length ss - 1" using lt by simp
    moreover have "ss \<noteq> []" using lt by auto
    ultimately have "ss ! target = last ss" by (simp add: last_conv_nth)
    then show ?thesis using step Suc.hyps(1) [OF k Suc.prems(1) le] lt False sp by simp
  qed
qed

lemma count_threshold_wf:
  assumes "wf_response (JArr ss)" and "ss \<noteq> []"
  shows "count_threshold (JArr ss) t g =
    Inr (if g then (Num (int (count_below t (the (series_points (last ss))))),
                    Num (int (count_above t (the (series_points (last ss))))))
         else (Num (int (count_above t (the (series_points (last ss))))),
               Num (int (count_below t (the (series_points (last ss)))))))"
  using assms
  by (simp add: count_threshold_def count_threshold_try_def count_threshold_while_wf
      count_below_def count_above_def)

text \<open>Whatever the points are, each one that does not raise adds at most one item.\<close>

lemma count_threshold_for_length:
  "count_threshold_for t ps (b, a) = Inr (b', a') \<Longrightarrow>
   length b' + length a' =
     length b + length a + length (filter (\<lambda>point. getitem_int point 0 \<noteq> Inr JNull) ps)"
proof (induction ps arbitrary: b a)
  case Nil
  then show ?case by simp
next
  case (Cons p ps)
  show ?case
  proof (cases "getitem_int p 0")
    case (Inl e)
    with Cons.prems show ?thesis by simp
  next
    case (Inr v)
    show ?thesis
    proof (cases "v = JNull")
      case True
      with Inr Cons.prems have "count_threshold_for t ps (b, a) = Inr (b', a')" by simp
      from Cons.IH [OF this] True Inr show ?thesis by simp
    next
      case False
      show ?thesis
      proof (cases "le_py v t")
        case (Inl e)
        with False Inr Cons.prems show ?thesis by simp
      next
        case le: (Inr c)
        show ?thesis
        proof (cases c)
          case True
          with le False Inr Cons.prems
          have "count_threshold_for t ps (b @ [v], a) = Inr (b', a')" by simp
          from Cons.IH [OF this] False Inr show ?thesis by simp
        next
          case c: False
          with le False Inr Cons.prems
          have "count_threshold_for t ps (b, a @ [v]) = Inr (b', a')" by simp
          from Cons.IH [OF this] False Inr show ?thesis by simp
        qed
      qed
    qed
  qed
qed

text \<open>A loop that ran and did not raise ends with the lists of its last iteration.\<close>

lemma count_threshold_while_last:
  "count_threshold_while r t x target bk = Inr res \<Longrightarrow> target < x \<Longrightarrow>
   \<exists>s d ps f. getitem_int r (x - 1) = Inr s \<and> getitem_str s ''datapoints'' = Inr d
     \<and> iter_py d = Inr ps \<and> count_threshold_for t ps ([], []) = Inr f \<and> res = Some f"
proof (induction r t x target bk rule: count_threshold_while.induct)
  case (1 response t x target buckets)
  from "1.prems"(2) "1.prems"(1)
  obtain s d ps f where s: "getitem_int response target = Inr s"
    and d: "getitem_str s ''datapoints'' = Inr d"
    and ps: "iter_py d = Inr ps"
    and f: "count_threshold_for t ps ([], []) = Inr f"
    and rest: "count_threshold_while response t x (target + 1) (Some f) = Inr res"
    by (subst (asm) count_threshold_while.simps) (auto split: sum.splits)
  show ?case
  proof (cases "target + 1 < x")
    case True
    from "1.IH" [OF "1.prems"(2) s d ps f rest True] show ?thesis .
  next
    case False
    then have tx: "target = x - 1" using "1.prems"(2) by simp
    from False rest have "res = Some f" by (simp add: count_threshold_while_done)
    with s d ps f tx show ?thesis by auto
  qed
qed

lemma count_threshold_return:
  assumes "count_threshold r t g = Inr (Num good, Num bad)"
  shows "0 \<le> good \<and> 0 \<le> bad \<and> good + bad = int (length (nonnull_samples r))"
proof -
  from assms obtain x bl ab where x: "len_py r = Inr x"
    and w: "count_threshold_while r t x 0 None = Inr (Some (bl, ab))"
    and gb: "(good, bad) = (if g then (int (length bl), int (length ab))
                            else (int (length ab), int (length bl)))"
    by (auto simp: count_threshold_def count_threshold_try_def
        split: sum.splits option.splits if_splits prod.splits)
  have pos: "0 < x"
  proof (rule ccontr)
    assume "\<not> 0 < x"
    then have "count_threshold_while r t x 0 None = Inr None"
      by (simp add: count_threshold_while_done)
    with w show False by simp
  qed
  from count_threshold_while_last [OF w pos]
  obtain s d ps where s: "getitem_int r (x - 1) = Inr s"
    and d: "getitem_str s ''datapoints'' = Inr d"
    and ps: "iter_py d = Inr ps"
    and f: "count_threshold_for t ps ([], []) = Inr (bl, ab)"
    by auto
  have "last_series_points r = ps"
    using x s d ps by (simp add: last_series_points_def)
  moreover from count_threshold_for_length [OF f]
  have "length bl + length ab = length (filter (\<lambda>point. getitem_int point 0 \<noteq> Inr JNull) ps)"
    by simp
  ultimately have "int (length bl) + int (length ab) = int (length (nonnull_samples r))"
    by (simp add: nonnull_samples_def)
  with gb show ?thesis by (auto split: if_splits)
qed

lemma count_below_insert:
  "count_below t (ps @ JArr (JNum t # ts) # qs) = count_below t (ps @ qs) + 1"
  "count_above t (ps @ JArr (JNum t # ts) # qs) = count_above t (ps @ qs)"
  "count_below t (ps @ JArr (JNull # ts) # qs) = count_below t (ps @ qs)"
  "count_above t (ps @ JArr (JNull # ts) # qs) = count_above t (ps @ qs)"
  by (simp_all add: count_below_def count_above_def values_of_Cons)

text \<open>
  A series that lacks the key \<^verbatim>\<open>datapoints\<close>, or a point that is an empty list, after
  well-formed series and points: the KeyError or IndexError becomes the sentinel pair.
\<close>

lemma count_threshold_for_empty_point:
  "list_all wf_point ps \<Longrightarrow> count_threshold_for t (ps @ JArr [] # qs) (b, a) = Inl IndexError"
proof (induction ps arbitrary: b a)
  case Nil
  then show ?case by simp
next
  case (Cons p ps)
  from Cons.prems have wp: "wf_point p" and wps: "list_all wf_point ps" by simp_all
  from wp show ?case
    by (cases rule: wf_point_cases) (simp_all add: Cons.IH [OF wps])
qed

lemma count_threshold_while_raises:
  assumes "list_all wf_series pre"
    and "(case getitem_str s ''datapoints'' of
            Inl e' \<Rightarrow> Inl e'
          | Inr d \<Rightarrow> (case iter_py d of
                         Inl e' \<Rightarrow> Inl e'
                       | Inr ps \<Rightarrow> count_threshold_for t ps ([], []))) = Inl e"
  shows "target \<le> length pre \<Longrightarrow>
    count_threshold_while (JArr (pre @ s # post)) t (length (pre @ s # post)) target bk = Inl e"
proof (induction "length pre - target" arbitrary: target bk)
  case 0
  then have "target = length pre" by simp
  then show ?case
    using assms(2)
    by (subst count_threshold_while.simps) (auto simp: nth_append split: sum.splits)
next
  case (Suc k)
  then have lt: "target < length pre" by simp
  with assms(1) have "wf_series (pre ! target)" by (simp add: list_all_length)
  then obtain ps where sp: "series_points (pre ! target) = Some ps"
    and wps: "list_all wf_point ps"
    by (auto simp: wf_series_def split: option.splits)
  have k: "k = length pre - (target + 1)" using Suc.hyps(2) by simp
  have le: "target + 1 \<le> length pre" using lt by simp
  show ?case
    using lt Suc.hyps(1) [OF k le]
    by (subst count_threshold_while.simps)
      (simp add: nth_append series_points_getitem [OF sp] count_threshold_for_wf [OF wps])
qed

lemma count_threshold_missing_field:
  assumes "list_all wf_series pre"
  shows "map_of kvs ''datapoints'' = None \<Longrightarrow>
      count_threshold (JArr (pre @ JObj kvs # post)) t g = Inr (NO_DATA, NO_DATA)"
    and "map_of kvs ''datapoints'' = Some (JArr (ps @ JArr [] # qs)) \<Longrightarrow> list_all wf_point ps \<Longrightarrow>
      count_threshold (JArr (pre @ JObj kvs # post)) t g = Inr (NO_DATA, NO_DATA)"
proof -
  assume "map_of kvs ''datapoints'' = None"
  then have "count_threshold_while (JArr (pre @ JObj kvs # post)) t
      (length (pre @ JObj kvs # post)) 0 None = Inl KeyError"
    by (intro count_threshold_while_raises [OF assms]) simp_all
  then show "count_threshold (JArr (pre @ JObj kvs # post)) t g = Inr (NO_DATA, NO_DATA)"
    by (simp add: count_threshold_def count_threshold_try_def)
next
  assume "map_of kvs ''datapoints'' = Some (JArr (ps @ JArr [] # qs))" and "list_all wf_point ps"
  then have "count_threshold_while (JArr (pre @ JObj kvs # post)) t
      (length (pre @ JObj kvs # post)) 0 None = Inl IndexError"
    by (intro count_threshold_while_raises [OF assms]) (simp_all add: count_threshold_for_empty_point)
  then show "count_threshold (JArr (pre @ JObj kvs # post)) t g = Inr (NO_DATA, NO_DATA)"
    by (simp add: count_threshold_def count_threshold_try_def)
qed

section \<open>The claims about \<^verbatim>\<open>count_threshold\<close>\<close>

text \<open>
  C4. One series with the sample values 10, null, 60, 50 and the threshold 50: good = 2
  and bad = 1 when good values are below the threshold, good = 1 and bad = 2 otherwise.
\<close>

theorem count_threshold_sample_scenario:
  "count_threshold
     (JArr [JObj [(''target'', JStr ''a.b.c''),
                  (''datapoints'',
                     JArr [JArr [JNum 10, JNum 1612257900], JArr [JNull, JNum 1612258200],
                           JArr [JNum 60, JNum 1612258500], JArr [JNum 50, JNum 1612258800]])]])
     (50::int) True = Inr (Num 2, Num 1)
   \<and> count_threshold
     (JArr [JObj [(''target'', JStr ''a.b.c''),
                  (''datapoints'',
                     JArr [JArr [JNum 10, JNum 1612257900], JArr [JNull, JNum 1612258200],
                           JArr [JNum 60, JNum 1612258500], JArr [JNum 50, JNum 1612258800]])]])
     (50::int) False = Inr (Num 1, Num 2)"
  by (simp add: count_threshold_def count_threshold_try_def count_threshold_while.simps)

text \<open>
  C1. The claim: an empty response (no series), like a response with a missing field or
  an index out of range, gives the sentinel pair and no exception. On the empty list (and
  the empty dict) the loop never runs, the names \<^verbatim>\<open>below\<close> and \<^verbatim>\<open>above\<close> are never
  bound, and the UnboundLocalError of the \<^verbatim>\<open>return\<close> is none of the three exceptions
  that the \<^verbatim>\<open>except\<close> clause turns into the sentinel: it reaches the caller. (A
  missing field or an empty point in a response that has a series does give the
  sentinel pair: \<open>count_threshold_missing_field\<close>.)
\<close>

theorem count_threshold_empty_response_raises:
  "count_threshold (JArr []) thr gbt = Inl UnboundLocalError
   \<and> count_threshold (JObj []) thr gbt = Inl UnboundLocalError"
  by (simp add: count_threshold_def count_threshold_try_def count_threshold_while_done)

text \<open>
  C2. The claim: the counts are taken across all the series of the response. The two
  lists are emptied at the start of every iteration of the loop over the series, so what
  is returned counts the last series only: with the value 10 in a first series and 60 in
  a second one, and the threshold 50, one value of the response is at most the threshold
  and one is above it, and the code returns good = 0 and bad = 1.
\<close>

theorem count_threshold_counts_last_series_only:
  "count_threshold
     (JArr [JObj [(''target'', JStr ''a''), (''datapoints'', JArr [JArr [JNum 10, JNum 1612257900]])],
            JObj [(''target'', JStr ''b''), (''datapoints'', JArr [JArr [JNum 60, JNum 1612257900]])]])
     (50::int) True = Inr (Num 0, Num 1)
   \<and> count_below (50::int) (all_series_points
       [JObj [(''target'', JStr ''a''), (''datapoints'', JArr [JArr [JNum 10, JNum 1612257900]])],
        JObj [(''target'', JStr ''b''), (''datapoints'', JArr [JArr [JNum 60, JNum 1612257900]])]]) = 1
   \<and> count_above (50::int) (all_series_points
       [JObj [(''target'', JStr ''a''), (''datapoints'', JArr [JArr [JNum 10, JNum 1612257900]])],
        JObj [(''target'', JStr ''b''), (''datapoints'', JArr [JArr [JNum 60, JNum 1612257900]])]]) = 1"
  by (simp add: count_threshold_def count_threshold_try_def count_threshold_while.simps
      count_below_def count_above_def all_series_points_def values_of_Cons)

text \<open>
  C3. A sample whose value equals the threshold goes to the list \<^verbatim>\<open>below\<close>, and a sample
  whose value is null goes to neither list. In the counts: putting a sample equal to the
  threshold anywhere into the last series of a well-formed response adds one to the good
  count when good values are below the threshold (to the bad count otherwise) and
  leaves the other count as it was; putting a null sample there changes nothing.
\<close>

theorem count_threshold_equal_is_below_null_is_skipped:
  assumes "list_all wf_series ss"
    and "list_all wf_point ps" and "list_all wf_point qs"
    and "series_points s = Some (ps @ qs)"
    and "series_points s_eq = Some (ps @ JArr (JNum thr # ts) # qs)"
    and "series_points s_null = Some (ps @ JArr (JNull # ts) # qs)"
  shows "count_threshold_for thr [JArr (JNum thr # ts)] (below_l, above_l)
           = Inr (below_l @ [JNum thr], above_l)
       \<and> count_threshold_for thr [JArr (JNull # ts)] (below_l, above_l)
           = Inr (below_l, above_l)
       \<and> count_threshold (JArr (ss @ [s])) thr True
           = Inr (Num (int (count_below thr (ps @ qs))),
                  Num (int (count_above thr (ps @ qs))))
       \<and> count_threshold (JArr (ss @ [s_eq])) thr True
           = Inr (Num (int (count_below thr (ps @ qs)) + 1),
                  Num (int (count_above thr (ps @ qs))))
       \<and> count_threshold (JArr (ss @ [s_eq])) thr False
           = Inr (Num (int (count_above thr (ps @ qs))),
                  Num (int (count_below thr (ps @ qs)) + 1))
       \<and> count_threshold (JArr (ss @ [s_null])) thr gbt
           = count_threshold (JArr (ss @ [s])) thr gbt"
proof -
  have s: "wf_response (JArr (ss @ [s]))"
    and e: "wf_response (JArr (ss @ [s_eq]))"
    and n: "wf_response (JArr (ss @ [s_null]))"
    using assms by (simp_all add: wf_series_def)
  have ne: "ss @ [s] \<noteq> []" "ss @ [s_eq] \<noteq> []" "ss @ [s_null] \<noteq> []" by simp_all
  show ?thesis
    using assms(4-6)
    by (simp add: count_threshold_wf [OF s ne(1)] count_threshold_wf [OF e ne(2)]
        count_threshold_wf [OF n ne(3)] count_below_insert)
qed

theorem count_threshold_equal_is_below_null_is_skipped_witness:
  "list_all wf_series ([] :: int json list)
   \<and> list_all wf_point [JArr [JNum (10::int), JNum 1]]
   \<and> list_all wf_point [JArr [JNum (60::int), JNum 4]]
   \<and> series_points
       (JObj [(''datapoints'', JArr ([JArr [JNum (10::int), JNum 1]] @ [JArr [JNum 60, JNum 4]]))])
       = Some ([JArr [JNum 10, JNum 1]] @ [JArr [JNum 60, JNum 4]])
   \<and> count_threshold
       (JArr ([] @ [JObj [(''datapoints'',
          JArr ([JArr [JNum 10, JNum 1]] @ JArr (JNum 50 # [JNum 2]) # [JArr [JNum 60, JNum 4]]))]]))
       (50::int) True = Inr (Num 2, Num 1)
   \<and> count_threshold
       (JArr ([] @ [JObj [(''datapoints'',
          JArr ([JArr [JNum 10, JNum 1]] @ JArr (JNull # [JNum 2]) # [JArr [JNum 60, JNum 4]]))]]))
       (50::int) True = Inr (Num 1, Num 1)"
  using count_threshold_equal_is_below_null_is_skipped
    [of "[]" "[JArr [JNum (10::int), JNum 1]]" "[JArr [JNum 60, JNum 4]]"
      "JObj [(''datapoints'', JArr ([JArr [JNum 10, JNum 1]] @ [JArr [JNum 60, JNum 4]]))]"
      "JObj [(''datapoints'',
          JArr ([JArr [JNum 10, JNum 1]] @ JArr (JNum 50 # [JNum 2]) # [JArr [JNum 60, JNum 4]]))]"
      50 "[JNum 2]"
      "JObj [(''datapoints'',
          JArr ([JArr [JNum 10, JNum 1]] @ JArr (JNull # [JNum 2]) # [JArr [JNum 60, JNum 4]]))]"
      "[]" "[]" True]
  by (simp add: count_below_def count_above_def values_of_Cons)

text \<open>
  C10. A well-formed response that has a series, and whose last series has no sample
  with a value (no points, or null values only), gives the ordinary counts (0, 0) and
  not the sentinel pair. And whenever \<^verbatim>\<open>count_threshold\<close> returns two counts, on any
  response at all, neither is negative and their sum is the number of the samples read
  in the last iteration whose value is not null.
\<close>

theorem count_threshold_zero_counts:
  "(wf_response (JArr ss) \<and> ss \<noteq> [] \<and> series_points (last ss) = Some ps \<and> values_of ps = []
      \<longrightarrow> count_threshold (JArr ss) thr gbt = Inr (Num 0, Num 0)
        \<and> count_threshold (JArr ss) thr gbt \<noteq> Inr (NO_DATA, NO_DATA))
   \<and> (count_threshold response thr gbt = Inr (Num good, Num bad)
      \<longrightarrow> 0 \<le> good \<and> 0 \<le> bad \<and> good + bad = int (length (nonnull_samples response)))"
proof (intro conjI impI)
  assume a: "wf_response (JArr ss) \<and> ss \<noteq> [] \<and> series_points (last ss) = Some ps
    \<and> values_of ps = []"
  then have wf: "wf_response (JArr ss)" and ne: "ss \<noteq> []" by simp_all
  from a show z: "count_threshold (JArr ss) thr gbt = Inr (Num 0, Num 0)"
    by (simp add: count_threshold_wf [OF wf ne] count_below_def count_above_def)
  show "count_threshold (JArr ss) thr gbt \<noteq> Inr (NO_DATA, NO_DATA)"
    by (simp add: z)
next
  assume "count_threshold response thr gbt = Inr (Num good, Num bad)"
  from count_threshold_return [OF this]
  show "0 \<le> good" and "0 \<le> bad" and "good + bad = int (length (nonnull_samples response))"
    by simp_all
qed

theorem count_threshold_zero_counts_witness:
  "wf_response (JArr [JObj [(''datapoints'', JArr [JArr [JNum (10::int), JNum 1]])],
                      JObj [(''datapoints'', JArr [JArr [JNull, JNum 2]])]])
   \<and> series_points (last [JObj [(''datapoints'', JArr [JArr [JNum (10::int), JNum 1]])],
                           JObj [(''datapoints'', JArr [JArr [JNull, JNum 2]])]])
       = Some [JArr [JNull, JNum 2]]
   \<and> values_of [JArr [JNull, JNum (2::int)]] = []
   \<and> count_threshold (JArr [JObj [(''datapoints'', JArr [JArr [JNum (10::int), JNum 1]])],
                            JObj [(''datapoints'', JArr [JArr [JNull, JNum 2]])]]) 50 True
       = Inr (Num 0, Num 0)
   \<and> count_threshold
       (JArr [JObj [(''datapoints'', JArr [JArr [JNum (10::int), JNum 1], JArr [JNull, JNum 2],
                                            JArr [JNum 60, JNum 3], JArr [JNum 50, JNum 4]])]])
       50 True = Inr (Num 2, Num 1)
   \<and> (2::int) + 1 = int (length (nonnull_samples
       (JArr [JObj [(''datapoints'', JArr [JArr [JNum (10::int), JNum 1], JArr [JNull, JNum 2],
                                            JArr [JNum 60, JNum 3], JArr [JNum 50, JNum 4]])]])))"
  using count_threshold_zero_counts
    [of "[JObj [(''datapoints'', JArr [JArr [JNum (10::int), JNum 1]])],
          JObj [(''datapoints'', JArr [JArr [JNull, JNum 2]])]]"
        "[JArr [JNull, JNum 2]]" 50 True
        "JArr [JObj [(''datapoints'', JArr [JArr [JNum (10::int), JNum 1], JArr [JNull, JNum 2],
                                            JArr [JNum 60, JNum 3], JArr [JNum 50, JNum 4]])]]"
        2 1]
  by (simp add: wf_series_def values_of_Cons count_threshold_def count_threshold_try_def
      count_threshold_while.simps)

section \<open>The claims about \<^verbatim>\<open>count\<close>\<close>

lemma wf_value_cases:
  assumes "wf_value v"
  obtains (num) n where "v = JNum n" | (null) "v = JNull"
  using assms by (cases v) auto

lemma count_comprehension_wf:
  "list_all wf_value vs \<Longrightarrow>
   count_comprehension vs = Inr (map JNum (filter (\<lambda>v. 0 < v) (List.map_filter present vs)))"
proof (induction vs)
  case Nil
  then show ?case by (simp add: map_filter_simps)
next
  case (Cons v vs)
  then have wv: "wf_value v" and IH: "count_comprehension vs =
      Inr (map JNum (filter (\<lambda>v. 0 < v) (List.map_filter present vs)))" by simp_all
  from wv show ?case
    by (cases rule: wf_value_cases) (simp_all add: IH map_filter_simps)
qed

lemma values_of_point_getitem:
  "values_of_point p = Some vs \<Longrightarrow> getitem_str p ''values'' = Inr (JArr vs)"
  by (cases p) (auto split: option.splits json.splits)

lemma count_for_wf:
  "list_all wf_count_point ps \<Longrightarrow>
   count_for ps vals = Inr (vals @ map JNum (filter (\<lambda>v. 0 < v) (present_values ps)))"
proof (induction ps arbitrary: vals)
  case Nil
  then show ?case by (simp add: present_values_def)
next
  case (Cons p ps)
  then have wp: "wf_count_point p" and wps: "list_all wf_count_point ps" by simp_all
  from wp obtain vs where pv: "values_of_point p = Some vs" and wvs: "list_all wf_value vs"
    by (auto simp: wf_count_point_def split: option.splits)
  show ?case
    by (simp add: values_of_point_getitem [OF pv] count_comprehension_wf [OF wvs]
        Cons.IH [OF wps] present_values_def pv)
qed

lemma sum_py_numbers: "sum_py (+) (map JNum xs) acc = Inr (acc + sum_list xs)"
  by (induction xs arbitrary: acc) (simp_all add: add.assoc)

lemma result_data_getitem:
  assumes "result_data r = Some ps"
  shows "\<exists>result series. getitem_str r ''result'' = Inr result
     \<and> getitem_int result 0 = Inr series \<and> getitem_str series ''data'' = Inr (JArr ps)"
  using assms
  by (cases r) (auto split: option.splits json.splits list.splits)

text \<open>
  On the layout that \<^verbatim>\<open>count\<close> reads, and with the exact addition of ints, the result
  is the sum of the values that are present and greater than zero.
\<close>

lemma count_wf:
  assumes "result_data r = Some ps" and "list_all wf_count_point ps"
  shows "count (+) r = Inr (Num (sum_list (filter (\<lambda>v. 0 < v) (present_values ps))))"
proof -
  from result_data_getitem [OF assms(1)]
  obtain result series where "getitem_str r ''result'' = Inr result"
    and "getitem_int result 0 = Inr series" and "getitem_str series ''data'' = Inr (JArr ps)"
    by blast
  then show ?thesis
    by (simp add: count_def count_try_def count_for_wf [OF assms(2)] sum_py_numbers)
qed

lemma count_result_layout_example:
  "count (+) (JObj [(''result'',
        JArr [JObj [(''data'',
          JArr [JObj [(''values'', JArr [JNum 5, JNum (- 3), JNum 0, JNull, JNum 7])]])]])])
       = Inr (Num (12::int))"
  by (simp add: count_def count_try_def)


text \<open>
  The series of the claim C5, with the values 5, -3, 0, null, 7, in the response that
  this backend receives is a well-formed response of \<^verbatim>\<open>count_threshold\<close>, which counts
  its samples.
\<close>

lemma graphite_series_is_well_formed:
  "wf_response
     (JArr [JObj [(''target'', JStr ''a.b.c''),
                  (''datapoints'',
                     JArr [JArr [JNum (5::int), JNum 1612257900], JArr [JNum (- 3), JNum 1612258200],
                           JArr [JNum 0, JNum 1612258500], JArr [JNull, JNum 1612258800],
                           JArr [JNum 7, JNum 1612259100]])]])
   \<and> count_threshold
     (JArr [JObj [(''target'', JStr ''a.b.c''),
                  (''datapoints'',
                     JArr [JArr [JNum (5::int), JNum 1612257900], JArr [JNum (- 3), JNum 1612258200],
                           JArr [JNum 0, JNum 1612258500], JArr [JNull, JNum 1612258800],
                           JArr [JNum 7, JNum 1612259100]])]])
     0 False = Inr (Num 2, Num 2)"
  by (simp add: wf_series_def count_threshold_def count_threshold_try_def
      count_threshold_while.simps)

text \<open>
  C5. The claim: on every well-formed response \<^verbatim>\<open>count\<close> returns the sum of the values
  that are present and greater than zero, 12 for one series with the values 5, -3, 0,
  null, 7. The response of this backend is a list of series, each with its
  \<^verbatim>\<open>datapoints\<close>, and \<^verbatim>\<open>count\<close> starts with \<^verbatim>\<open>response['result']\<close>: a list refuses
  the string index, and the TypeError is none of the two exceptions that the
  \<^verbatim>\<open>except\<close> clause names. So \<^verbatim>\<open>count\<close> raises on every response that is a list,
  whatever Python's addition is, and in particular on the series of the claim.
\<close>

theorem count_raises_on_graphite_response:
  "count plus_py (JArr ss) = Inl TypeError
   \<and> count (+)
     (JArr [JObj [(''target'', JStr ''a.b.c''),
                  (''datapoints'',
                     JArr [JArr [JNum (5::int), JNum 1612257900], JArr [JNum (- 3), JNum 1612258200],
                           JArr [JNum 0, JNum 1612258500], JArr [JNull, JNum 1612258800],
                           JArr [JNum 7, JNum 1612259100]])]])
     = Inl TypeError"
  by (simp add: count_def count_try_def)




section \<open>The claims about \<^verbatim>\<open>threshold\<close>, \<^verbatim>\<open>query\<close> and the request URL\<close>

lemma is_digit_digit_char [simp]: "is_digit (digit_char n)"
  unfolding is_digit_def digit_char_def by (rule nth_mem) simp

lemma digit_char_not_slash [simp]: "digit_char n \<noteq> CHR ''/''"
proof
  assume "digit_char n = CHR ''/''"
  moreover have "is_digit (digit_char n)" by simp
  ultimately show False by (simp add: is_digit_def)
qed

lemma slash_not_digit_char [simp]: "CHR ''/'' \<noteq> digit_char n"
  using digit_char_not_slash [of n] by (simp del: digit_char_not_slash)

lemma decimal_1: "n < 10 \<Longrightarrow> decimal n = [digit_char n]"
  by (simp add: decimal.simps)

lemma decimal_2: "10 \<le> n \<Longrightarrow> n < 100 \<Longrightarrow> decimal n = [digit_char (n div 10), digit_char n]"
  by (subst decimal.simps) (simp add: decimal_1)

lemma decimal_3:
  "100 \<le> n \<Longrightarrow> n < 1000 \<Longrightarrow>
   decimal n = [digit_char (n div 100), digit_char (n div 10), digit_char n]"
  by (subst decimal.simps) (simp add: decimal_2 div_mult2_eq [symmetric])

lemma decimal_4:
  "1000 \<le> n \<Longrightarrow> n \<le> 9999 \<Longrightarrow>
   decimal n = [digit_char (n div 1000), digit_char (n div 100), digit_char (n div 10),
                digit_char n]"
  by (subst decimal.simps) (simp add: decimal_3 div_mult2_eq [symmetric])

lemma zero_padded_2:
  "n < 100 \<Longrightarrow> zero_padded 2 n = [digit_char (n div 10), digit_char n]"
proof (cases "n < 10")
  case True
  then show ?thesis by (simp add: zero_padded_def decimal_1 digit_char_def)
next
  case False
  assume "n < 100"
  with False show ?thesis by (simp add: zero_padded_def decimal_2)
qed

text \<open>The fourteen characters that the format string of \<^verbatim>\<open>query\<close> produces.\<close>

lemma strftime_render_format:
  assumes "valid_datetime dt" and "1000 \<le> year dt"
  shows "strftime dt ''%H:%M_%Y%m%d'' =
    [digit_char (hour dt div 10), digit_char (hour dt), CHR '':'',
     digit_char (minute dt div 10), digit_char (minute dt), CHR ''_'',
     digit_char (year dt div 1000), digit_char (year dt div 100), digit_char (year dt div 10),
     digit_char (year dt),
     digit_char (month dt div 10), digit_char (month dt),
     digit_char (day dt div 10), digit_char (day dt)]"
  using assms
  by (simp add: valid_datetime_def strftime_directive_def zero_padded_2 decimal_4)

declare strftime.simps [simp del]

text \<open>
  C7. \<^verbatim>\<open>threshold\<close> queries the configured metric from \<open>timestamp - window\<close> to
  \<open>timestamp\<close> and returns what \<^verbatim>\<open>count_threshold\<close> makes of the response, with the
  configured threshold and the configured flag, which is true when the configuration
  has none. What the query raises is raised.
\<close>

theorem threshold_delegates_to_query_and_count_threshold:
  "threshold session fromtimestamp self timestamp window slo_config =
     (case query session fromtimestamp self (timestamp - window) timestamp
             (cfg_metric (measurement (backend slo_config))) of
        Inl e \<Rightarrow> Inl e
      | Inr response \<Rightarrow>
          count_threshold response (cfg_threshold (measurement (backend slo_config)))
            (case cfg_good_below_threshold (measurement (backend slo_config)) of
               None \<Rightarrow> True | Some b \<Rightarrow> b))
   \<and> threshold session fromtimestamp self timestamp window
       \<lparr>backend = \<lparr>measurement =
          \<lparr>cfg_metric = m, cfg_threshold = thr, cfg_good_below_threshold = None\<rparr>\<rparr>\<rparr> =
     (case query session fromtimestamp self (timestamp - window) timestamp m of
        Inl e \<Rightarrow> Inl e
      | Inr response \<Rightarrow> count_threshold response thr True)
   \<and> threshold session fromtimestamp self timestamp window
       \<lparr>backend = \<lparr>measurement =
          \<lparr>cfg_metric = m, cfg_threshold = thr, cfg_good_below_threshold = Some gbt\<rparr>\<rparr>\<rparr> =
     (case query session fromtimestamp self (timestamp - window) timestamp m of
        Inl e \<Rightarrow> Inl e
      | Inr response \<Rightarrow> count_threshold response thr gbt)"
  by (simp add: threshold_def Let_def cong: sum.case_cong)

text \<open>
  A run of \<^verbatim>\<open>threshold\<close> from the configuration to the counts: the clock is at UTC,
  the window is the hour before 1612257900, and the server answers the one URL that the
  client must request with the series of the sample scenario.
\<close>

lemma threshold_sample_run:
  "threshold
     (\<lambda>method target_url headers.
        if method = ''get''
          \<and> target_url = ''http://g/render?target=a.b.c&from=08:25_20210202&until=09:25_20210202&format=json''
        then Inr (JArr [JObj [(''target'', JStr ''a.b.c''),
                  (''datapoints'',
                     JArr [JArr [JNum 10, JNum 1612254600], JArr [JNull, JNum 1612255500],
                           JArr [JNum 60, JNum 1612256400], JArr [JNum 50, JNum 1612257300]])]])
        else Inl RequestException)
     utc_fromtimestamp (GraphiteBackend None ''http://g/'') 1612257900 3600
     \<lparr>backend = \<lparr>measurement =
        \<lparr>cfg_metric = ''a.b.c'', cfg_threshold = (50::int), cfg_good_below_threshold = None\<rparr>\<rparr>\<rparr>
   = Inr (Num 2, Num 1)"
proof -
  have s: "utc_fromtimestamp 1612254300
     = Inr \<lparr>year = 2021, month = 2, day = 2, hour = 8, minute = 25\<rparr>"
    by code_simp
  have e: "utc_fromtimestamp 1612257900
     = Inr \<lparr>year = 2021, month = 2, day = 2, hour = 9, minute = 25\<rparr>"
    by code_simp
  have f: "strftime \<lparr>year = 2021, month = 2, day = 2, hour = 8, minute = 25\<rparr> ''%H:%M_%Y%m%d''
      = ''08:25_20210202''"
    and u: "strftime \<lparr>year = 2021, month = 2, day = 2, hour = 9, minute = 25\<rparr> ''%H:%M_%Y%m%d''
      = ''09:25_20210202''"
    by (simp_all add: strftime_render_format valid_datetime_def digit_char_def)
  show ?thesis
    by (simp add: threshold_def Let_def query_def s e f u request_def request_url_def
        GraphiteBackend_def GraphiteClient_def rstrip_def
        count_threshold_def count_threshold_try_def count_threshold_while.simps)
qed

lemma digit_value_digit_char [simp]: "digit_value (digit_char n) = n mod 10"
proof -
  have "n mod 10 < 10" by simp
  then have "n mod 10 = 0 \<or> n mod 10 = 1 \<or> n mod 10 = 2 \<or> n mod 10 = 3 \<or> n mod 10 = 4
    \<or> n mod 10 = 5 \<or> n mod 10 = 6 \<or> n mod 10 = 7 \<or> n mod 10 = 8 \<or> n mod 10 = 9"
    by arith
  then show ?thesis
    by (elim disjE) (simp_all add: digit_value_def digit_char_def)
qed

lemma two_digits_value: "n < 100 \<Longrightarrow> 10 * (n div 10 mod 10) + n mod 10 = (n::nat)"
proof -
  assume "n < 100"
  then have "n div 10 < 10" by simp
  then have "n div 10 mod 10 = n div 10" by simp
  then show ?thesis by simp
qed

lemma four_digits_value:
  assumes "n \<le> 9999"
  shows "10 * (10 * (10 * (n div 1000 mod 10) + n div 100 mod 10) + n div 10 mod 10) + n mod 10
     = (n::nat)"
proof -
  from assms have "n div 1000 < 10" by simp
  then have d: "n div 1000 mod 10 = n div 1000" by simp
  have c: "10 * (n div 1000) + n div 100 mod 10 = n div 100"
    using div_mult_mod_eq [of "n div 100" 10] by (simp add: div_mult2_eq [symmetric] mult.commute)
  have b: "10 * (n div 100) + n div 10 mod 10 = n div 10"
    using div_mult_mod_eq [of "n div 10" 10] by (simp add: div_mult2_eq [symmetric] mult.commute)
  have a: "10 * (n div 10) + n mod 10 = n" by simp
  show ?thesis by (simp only: d c b a)
qed

lemma decimal_value_2:
  assumes "n < 100"
  shows "decimal_value [digit_char (n div 10), digit_char n] = n"
proof -
  have "decimal_value [digit_char (n div 10), digit_char n] = 10 * (n div 10 mod 10) + n mod 10"
    by (simp add: decimal_value_def)
  also have "\<dots> = n" by (rule two_digits_value [OF assms])
  finally show ?thesis .
qed

lemma decimal_value_4:
  assumes "n \<le> 9999"
  shows "decimal_value [digit_char (n div 1000), digit_char (n div 100), digit_char (n div 10),
                        digit_char n] = n"
proof -
  have "decimal_value [digit_char (n div 1000), digit_char (n div 100), digit_char (n div 10),
                       digit_char n]
      = 10 * (10 * (10 * (n div 1000 mod 10) + n div 100 mod 10) + n div 10 mod 10) + n mod 10"
    by (simp add: decimal_value_def)
  also have "\<dots> = n" by (rule four_digits_value [OF assms])
  finally show ?thesis .
qed

text \<open>What the format string of \<^verbatim>\<open>query\<close> produces shows the date-time.\<close>

lemma strftime_shows_datetime:
  assumes "valid_datetime dt" and "1000 \<le> year dt"
  shows "shows_datetime dt (strftime dt ''%H:%M_%Y%m%d'')"
proof -
  from assms(1) have "hour dt < 100" and "minute dt < 100" and "year dt \<le> 9999"
    and "month dt < 100" and "day dt < 100"
    by (simp_all add: valid_datetime_def)
  then show ?thesis
    by (simp add: shows_datetime_def strftime_render_format [OF assms]
        decimal_value_2 decimal_value_4)
qed

text \<open>
  C8. The claim: for every pair of UNIX timestamps \<^verbatim>\<open>query\<close> formats both to match
  \<^verbatim>\<open>HH:MM_YYYYMMDD\<close>. \<^verbatim>\<open>datetime\<close> holds the years 1 to 9999 only, so for the first
  second of the year 10000 the conversion raises ValueError and nothing is formatted or
  requested; and \<^verbatim>\<open>%Y\<close> does not pad, so for the last minute of the year 999 the
  parameter \<^verbatim>\<open>from\<close> has thirteen characters. (The clock is at UTC; the server answers
  with the URL it was asked for.)
\<close>

theorem query_timestamp_counterexample:
  "query (\<lambda>method target_url headers. Inr (JStr target_url :: int json)) utc_fromtimestamp
     (GraphiteBackend None ''http://g/'') 253402300800 253402300800 ''a.b.c''
     = Inl ValueError
   \<and> query (\<lambda>method target_url headers. Inr (JStr target_url :: int json)) utc_fromtimestamp
     (GraphiteBackend None ''http://g/'') (- 30610224001) 1612257900 ''a.b.c''
     = Inr (JStr ''http://g/render?target=a.b.c&from=23:59_9991231&until=09:25_20210202&format=json'')
   \<and> \<not> matches_pattern ''HH:MM_YYYYMMDD'' ''23:59_9991231''"
proof -
  have a: "utc_fromtimestamp 253402300800 = Inl ValueError"
    by code_simp
  have b: "utc_fromtimestamp (- 30610224001)
     = Inr \<lparr>year = 999, month = 12, day = 31, hour = 23, minute = 59\<rparr>"
    by code_simp
  have c: "utc_fromtimestamp 1612257900
     = Inr \<lparr>year = 2021, month = 2, day = 2, hour = 9, minute = 25\<rparr>"
    by code_simp
  have f: "strftime \<lparr>year = 999, month = 12, day = 31, hour = 23, minute = 59\<rparr> ''%H:%M_%Y%m%d''
      = ''23:59_9991231''"
    by (simp add: strftime.simps strftime_directive_def zero_padded_2 decimal_3 digit_char_def)
  have u: "strftime \<lparr>year = 2021, month = 2, day = 2, hour = 9, minute = 25\<rparr> ''%H:%M_%Y%m%d''
      = ''09:25_20210202''"
    by (simp add: strftime_render_format valid_datetime_def digit_char_def)
  show ?thesis
    by (simp add: query_def a b c f u request_def request_url_def GraphiteBackend_def
        GraphiteClient_def rstrip_def is_digit_def)
qed

text \<open>
  C8, as amended. For timestamps that \<^verbatim>\<open>datetime.fromtimestamp\<close> converts to date-times
  of the years 1000 to 9999, \<^verbatim>\<open>query\<close> sends one GET request for the URL of the client,
  \<^verbatim>\<open>/render?target=\<close> and the metric, with the parameters \<^verbatim>\<open>from\<close> and \<^verbatim>\<open>until\<close>
  and \<^verbatim>\<open>format=json\<close>; \<^verbatim>\<open>from\<close> shows the local date-time of the start and
  \<^verbatim>\<open>until\<close> that of the end: two digits of the hour, a colon, two digits of the minute,
  an underscore, four digits of the year, two of the month and two of the day.
\<close>

theorem query_formats_window:
  assumes "fromtimestamp start = Inr start_dt" and "fromtimestamp stop = Inr end_dt"
    and "valid_datetime start_dt" and "1000 \<le> year start_dt"
    and "valid_datetime end_dt" and "1000 \<le> year end_dt"
  shows "query session fromtimestamp self start stop metric =
           request session (client self) ''get'' ''render?target'' metric
             [(''from'', Some (strftime start_dt ''%H:%M_%Y%m%d'')),
              (''until'', Some (strftime end_dt ''%H:%M_%Y%m%d'')),
              (''format'', Some ''json'')]
       \<and> query session fromtimestamp self start stop metric =
           session ''get''
             (url (client self) @ ''/render?target='' @ metric
                @ ''&from='' @ strftime start_dt ''%H:%M_%Y%m%d''
                @ ''&until='' @ strftime end_dt ''%H:%M_%Y%m%d'' @ ''&format=json'')
             [(''Accept'', ''application/json''), (''Content-Type'', ''application/json''),
              (''User-Agent'', ''slo-generator'')]
       \<and> shows_datetime start_dt (strftime start_dt ''%H:%M_%Y%m%d'')
       \<and> shows_datetime end_dt (strftime end_dt ''%H:%M_%Y%m%d'')"
  using assms(1,2)
  by (simp add: query_def request_def request_url_def
      strftime_shows_datetime [OF assms(3,4)] strftime_shows_datetime [OF assms(5,6)])

theorem query_formats_window_witness:
  "utc_fromtimestamp 1612254300
     = Inr \<lparr>year = 2021, month = 2, day = 2, hour = 8, minute = 25\<rparr>
   \<and> utc_fromtimestamp 1612257900
     = Inr \<lparr>year = 2021, month = 2, day = 2, hour = 9, minute = 25\<rparr>
   \<and> valid_datetime \<lparr>year = 2021, month = 2, day = 2, hour = 8, minute = 25\<rparr>
   \<and> valid_datetime \<lparr>year = 2021, month = 2, day = 2, hour = 9, minute = 25\<rparr>
   \<and> query (\<lambda>method target_url headers. Inr (JStr target_url :: int json)) utc_fromtimestamp
        (GraphiteBackend None ''http://g/'') 1612254300 1612257900 ''a.b.c''
     = Inr (JStr ''http://g/render?target=a.b.c&from=08:25_20210202&until=09:25_20210202&format=json'')
   \<and> shows_datetime \<lparr>year = 2021, month = 2, day = 2, hour = 8, minute = 25\<rparr> ''08:25_20210202''
   \<and> shows_datetime \<lparr>year = 2021, month = 2, day = 2, hour = 9, minute = 25\<rparr> ''09:25_20210202''"
proof -
  have s: "utc_fromtimestamp 1612254300
     = Inr \<lparr>year = 2021, month = 2, day = 2, hour = 8, minute = 25\<rparr>"
    by code_simp
  have e: "utc_fromtimestamp 1612257900
     = Inr \<lparr>year = 2021, month = 2, day = 2, hour = 9, minute = 25\<rparr>"
    by code_simp
  have vs: "valid_datetime \<lparr>year = 2021, month = 2, day = 2, hour = 8, minute = 25\<rparr>"
    and ve: "valid_datetime \<lparr>year = 2021, month = 2, day = 2, hour = 9, minute = 25\<rparr>"
    by (simp_all add: valid_datetime_def)
  have f: "strftime \<lparr>year = 2021, month = 2, day = 2, hour = 8, minute = 25\<rparr> ''%H:%M_%Y%m%d''
      = ''08:25_20210202''"
    and u: "strftime \<lparr>year = 2021, month = 2, day = 2, hour = 9, minute = 25\<rparr> ''%H:%M_%Y%m%d''
      = ''09:25_20210202''"
    by (simp_all add: strftime_render_format vs ve digit_char_def)
  from query_formats_window [of utc_fromtimestamp 1612254300 _ 1612257900 _
      "\<lambda>method target_url headers. Inr (JStr target_url :: int json)"
      "GraphiteBackend None ''http://g/''" "''a.b.c''", OF s e vs _ ve]
  show ?thesis
    by (simp add: s e vs ve f u request_def request_url_def GraphiteBackend_def
        GraphiteClient_def rstrip_def)
qed

text \<open>What \<^verbatim>\<open>rstrip\<close> returns does not end with the stripped character.\<close>

lemma rstrip_no_trailing: "rstrip c s \<noteq> [] \<Longrightarrow> last (rstrip c s) \<noteq> c"
proof -
  assume ne: "rstrip c s \<noteq> []"
  then have d: "dropWhile (\<lambda>x. x = c) (rev s) \<noteq> []" by (simp add: rstrip_def)
  then have "hd (dropWhile (\<lambda>x. x = c) (rev s)) \<noteq> c" using hd_dropWhile [OF d] by simp
  with d show ?thesis by (simp add: rstrip_def last_rev)
qed

lemma rstrip_is_prefix: "\<exists>n. s = rstrip c s @ replicate n c"
proof -
  have "rev s = takeWhile (\<lambda>x. x = c) (rev s) @ dropWhile (\<lambda>x. x = c) (rev s)" by simp
  moreover have "takeWhile (\<lambda>x. x = c) (rev s) = replicate (length (takeWhile (\<lambda>x. x = c) (rev s))) c"
    by (rule replicate_length_same [symmetric]) (auto dest: set_takeWhileD)
  ultimately have "rev s = replicate (length (takeWhile (\<lambda>x. x = c) (rev s))) c
      @ dropWhile (\<lambda>x. x = c) (rev s)" by simp
  then have "rev (rev s) = rev (replicate (length (takeWhile (\<lambda>x. x = c) (rev s))) c
      @ dropWhile (\<lambda>x. x = c) (rev s))" by simp
  then have "s = rstrip c s @ replicate (length (takeWhile (\<lambda>x. x = c) (rev s))) c"
    by (simp add: rstrip_def)
  then show ?thesis ..
qed

text \<open>
  C9. For \<^verbatim>\<open>api_url="http://g/"\<close> and \<^verbatim>\<open>metric="a.b.c"\<close> the client keeps the URL
  \<^verbatim>\<open>http://g\<close>, without the slash at the end, and the URL it requests for the parameters
  of \<^verbatim>\<open>query\<close> has no double slash after the scheme and contains \<^verbatim>\<open>target=a.b.c\<close>.
\<close>

theorem request_url_no_double_slash:
  assumes "valid_datetime start_dt" and "1000 \<le> year start_dt"
    and "valid_datetime end_dt" and "1000 \<le> year end_dt"
  shows "url (GraphiteClient ''http://g/'') = ''http://g''
       \<and> request_url (GraphiteClient ''http://g/'') ''render?target'' ''a.b.c''
             [(''from'', Some (strftime start_dt ''%H:%M_%Y%m%d'')),
              (''until'', Some (strftime end_dt ''%H:%M_%Y%m%d'')),
              (''format'', Some ''json'')]
           = ''http://g/render?target=a.b.c&from='' @ strftime start_dt ''%H:%M_%Y%m%d''
               @ ''&until='' @ strftime end_dt ''%H:%M_%Y%m%d'' @ ''&format=json''
       \<and> \<not> is_substring ''//'' (after_scheme
             (request_url (GraphiteClient ''http://g/'') ''render?target'' ''a.b.c''
               [(''from'', Some (strftime start_dt ''%H:%M_%Y%m%d'')),
                (''until'', Some (strftime end_dt ''%H:%M_%Y%m%d'')),
                (''format'', Some ''json'')]))
       \<and> is_substring ''target=a.b.c''
             (request_url (GraphiteClient ''http://g/'') ''render?target'' ''a.b.c''
               [(''from'', Some (strftime start_dt ''%H:%M_%Y%m%d'')),
                (''until'', Some (strftime end_dt ''%H:%M_%Y%m%d'')),
                (''format'', Some ''json'')])"
proof -
  have u: "url (GraphiteClient ''http://g/'') = ''http://g''"
    by (simp add: GraphiteClient_def rstrip_def)
  show ?thesis
    by (simp add: u request_url_def strftime_render_format [OF assms(1,2)]
        strftime_render_format [OF assms(3,4)])
qed

theorem request_url_no_double_slash_witness:
  "valid_datetime \<lparr>year = 2021, month = 2, day = 2, hour = 8, minute = 25\<rparr>
   \<and> valid_datetime \<lparr>year = 2021, month = 2, day = 2, hour = 9, minute = 25\<rparr>
   \<and> request_url (GraphiteClient ''http://g/'') ''render?target'' ''a.b.c''
        [(''from'', Some ''08:25_20210202''), (''until'', Some ''09:25_20210202''),
         (''format'', Some ''json'')]
      = ''http://g/render?target=a.b.c&from=08:25_20210202&until=09:25_20210202&format=json''
   \<and> \<not> is_substring ''//'' (after_scheme
        ''http://g/render?target=a.b.c&from=08:25_20210202&until=09:25_20210202&format=json'')
   \<and> is_substring ''target=a.b.c''
        ''http://g/render?target=a.b.c&from=08:25_20210202&until=09:25_20210202&format=json''"
proof -
  have vs: "valid_datetime \<lparr>year = 2021, month = 2, day = 2, hour = 8, minute = 25\<rparr>"
    and ve: "valid_datetime \<lparr>year = 2021, month = 2, day = 2, hour = 9, minute = 25\<rparr>"
    by (simp_all add: valid_datetime_def)
  have f: "strftime \<lparr>year = 2021, month = 2, day = 2, hour = 8, minute = 25\<rparr> ''%H:%M_%Y%m%d''
      = ''08:25_20210202''"
    and u: "strftime \<lparr>year = 2021, month = 2, day = 2, hour = 9, minute = 25\<rparr> ''%H:%M_%Y%m%d''
      = ''09:25_20210202''"
    by (simp_all add: strftime_render_format vs ve digit_char_def)
  have r: "request_url (GraphiteClient ''http://g/'') ''render?target'' ''a.b.c''
        [(''from'', Some ''08:25_20210202''), (''until'', Some ''09:25_20210202''),
         (''format'', Some ''json'')]
      = ''http://g/render?target=a.b.c&from=08:25_20210202&until=09:25_20210202&format=json''"
    by (simp add: request_url_def GraphiteClient_def rstrip_def)
  from request_url_no_double_slash [OF vs _ ve]
  show ?thesis
    by (simp add: vs ve f u r)
qed

end
